theory Spec2Isabelle
  imports Main "HOL-Library.Word"
begin

section \<open>Data model of the Go binding (btoon.go)\<close>

text \<open>
  The binding passes Go values of type \<^verbatim>\<open>interface{}\<close> in and out. The dynamic values the
  format knows are the ones the tests exercise: \<^verbatim>\<open>nil\<close>, \<^verbatim>\<open>bool\<close>, \<^verbatim>\<open>int\<close>, \<^verbatim>\<open>float64\<close>,
  \<^verbatim>\<open>string\<close>, \<^verbatim>\<open>[]byte\<close>, \<^verbatim>\<open>[]interface{}\<close> and \<^verbatim>\<open>map[string]interface{}\<close>. The nil
  interface is \<open>Null\<close>. A \<^verbatim>\<open>float64\<close> is carried as its 64-bit pattern; no function of
  the binding computes with it. A map is kept as its list of entries.
\<close>

type_synonym byte = "8 word"

datatype Value =
    Null
  | Bool bool
  | Int64 "64 word"
  | Float64 "64 word"
  | String string
  | Bytes "byte list"
  | Array "Value list"
  | Map "(string \<times> Value) list"

text \<open>
  \<^verbatim>\<open>type CompressionAlgorithm int\<close> with its \<^verbatim>\<open>iota\<close> constants. Any \<^verbatim>\<open>int\<close> is a value of
  the type in Go, so the type is \<open>int\<close>, not a closed enumeration.
\<close>

type_synonym CompressionAlgorithm = int

definition CompressionNone :: CompressionAlgorithm where "CompressionNone = 0"
definition CompressionZlib :: CompressionAlgorithm where "CompressionZlib = 1"
definition CompressionLZ4 :: CompressionAlgorithm where "CompressionLZ4 = 2"
definition CompressionZSTD :: CompressionAlgorithm where "CompressionZSTD = 3"
definition CompressionBrotli :: CompressionAlgorithm where "CompressionBrotli = 4"
definition CompressionSnappy :: CompressionAlgorithm where "CompressionSnappy = 5"

record EncodeOptions =
  Compress :: bool
  Algorithm :: CompressionAlgorithm
  Level :: int
  AutoTabular :: bool

record DecodeOptions =
  Decompress :: bool

text \<open>
  A Go \<^verbatim>\<open>error\<close> is \<open>None\<close> for \<^verbatim>\<open>nil\<close> and otherwise the value built by
  \<^verbatim>\<open>errors.New(msg)\<close>, identified by its message. A \<^verbatim>\<open>[]byte\<close> is a byte list; the nil
  slice is the empty list (the code only ever takes \<^verbatim>\<open>len\<close> of a slice).
\<close>

datatype error = errors_New string

text \<open>
  \<^verbatim>\<open>unsafe.Pointer\<close>: \<open>None\<close> is \<^verbatim>\<open>nil\<close>, \<open>Some a\<close> the address \<open>a\<close>. The C heap, the only
  state outside the arguments that Encode and Decode can reach (through \<^verbatim>\<open>C.free\<close>), is
  the set of addresses that are allocated.
\<close>

type_synonym pointer = "nat option"
type_synonym cheap = "nat set"

definition C_free :: "nat \<Rightarrow> cheap \<Rightarrow> cheap" where
  "C_free a h = h - {a}"

section \<open>Helper functions for the CGO interaction\<close>

text \<open>Each helper is the placeholder the source has: it returns \<^verbatim>\<open>nil\<close> on every input.\<close>

definition encodeValue :: "Value \<Rightarrow> pointer" where
  "encodeValue v = None"

definition decodeData :: "pointer \<Rightarrow> Value \<times> error option" where
  "decodeData data = (Null, None)"

definition freeEncodedData :: "pointer \<Rightarrow> cheap \<Rightarrow> cheap" where
  "freeEncodedData data h = (case data of None \<Rightarrow> h | Some a \<Rightarrow> C_free a h)"

definition dataToBytes :: "pointer \<Rightarrow> byte list" where
  "dataToBytes data = []"

definition bytesToData :: "byte list \<Rightarrow> pointer" where
  "bytesToData data = None"

definition compressData :: "pointer \<Rightarrow> CompressionAlgorithm \<Rightarrow> int \<Rightarrow> pointer" where
  "compressData data algo level = None"

definition decompressData :: "pointer \<Rightarrow> pointer" where
  "decompressData data = None"

section \<open>Encode and Decode\<close>

text \<open>
  The variadic \<^verbatim>\<open>opts ...EncodeOptions\<close> is a list. \<open>Encode_opt\<close> is the first statement
  pair of \<^verbatim>\<open>Encode\<close>, which sets \<^verbatim>\<open>opt\<close> to the default and replaces it by \<^verbatim>\<open>opts[0]\<close> when
  there is one (\<open>Decode_opt\<close> likewise, further down). The fields the composite literal
  of the default leaves out take Go's zero value, so \<open>Algorithm\<close> is 0.
\<close>

definition Encode_default :: EncodeOptions where
  "Encode_default = \<lparr>Compress = False, Algorithm = 0, Level = 6, AutoTabular = True\<rparr>"

definition Encode_opt :: "EncodeOptions list \<Rightarrow> EncodeOptions" where
  "Encode_opt opts = (if length opts > 0 then opts ! 0 else Encode_default)"

text \<open>
  A deferred \<^verbatim>\<open>freeEncodedData(data)\<close> keeps the pointer \<open>data\<close> had when the \<^verbatim>\<open>defer\<close>
  statement ran; the deferred calls run when the function returns, the last one first,
  after the returned expression has been evaluated.
\<close>

definition Encode ::
    "Value \<Rightarrow> EncodeOptions list \<Rightarrow> cheap \<Rightarrow> (byte list \<times> error option) \<times> cheap" where
  "Encode v opts h =
     (let opt = Encode_opt opts;
          data = encodeValue v
      in if data = None then (([], Some (errors_New ''failed to encode value'')), h)
         else if Compress opt then
           (let data' = compressData data (Algorithm opt) (Level opt)
            in if data' = None
               then (([], Some (errors_New ''compression failed'')), freeEncodedData data h)
               else ((dataToBytes data', None),
                     freeEncodedData data (freeEncodedData data' h)))
         else ((dataToBytes data, None), freeEncodedData data h))"

definition Decode_default :: DecodeOptions where
  "Decode_default = \<lparr>Decompress = False\<rparr>"

definition Decode_opt :: "DecodeOptions list \<Rightarrow> DecodeOptions" where
  "Decode_opt opts = (if length opts > 0 then opts ! 0 else Decode_default)"

definition Decode ::
    "byte list \<Rightarrow> DecodeOptions list \<Rightarrow> cheap \<Rightarrow> (Value \<times> error option) \<times> cheap" where
  "Decode data opts h =
     (if length data = 0 then ((Null, Some (errors_New ''empty data'')), h)
      else
        (let opt = Decode_opt opts;
             cdata = bytesToData data
         in if cdata = None
            then ((Null, Some (errors_New ''failed to create data structure'')), h)
            else if Decompress opt then
              (let cdata' = decompressData cdata
               in if cdata' = None
                  then ((Null, Some (errors_New ''decompression failed'')),
                        freeEncodedData cdata h)
                  else (decodeData cdata',
                        freeEncodedData cdata (freeEncodedData cdata' h)))
            else (decodeData cdata, freeEncodedData cdata h)))"

section \<open>Streaming\<close>

text \<open>
  A method with a pointer receiver takes the object and returns it with its result. The
  bodies are the source's: no method reads or writes the object.
\<close>

record StreamEncoder =
  encoder :: pointer

record StreamDecoder =
  decoder :: pointer

definition NewStreamEncoder :: StreamEncoder where
  "NewStreamEncoder = \<lparr>encoder = None\<rparr>"

definition StreamEncoder_Encode :: "StreamEncoder \<Rightarrow> Value \<Rightarrow> error option \<times> StreamEncoder" where
  "StreamEncoder_Encode s v = (None, s)"

definition StreamEncoder_Flush :: "StreamEncoder \<Rightarrow> (byte list \<times> error option) \<times> StreamEncoder" where
  "StreamEncoder_Flush s = (([], None), s)"

definition StreamEncoder_Close :: "StreamEncoder \<Rightarrow> error option \<times> StreamEncoder" where
  "StreamEncoder_Close s = (None, s)"

definition NewStreamDecoder :: "byte list \<Rightarrow> StreamDecoder" where
  "NewStreamDecoder data = \<lparr>decoder = None\<rparr>"

definition StreamDecoder_Decode :: "StreamDecoder \<Rightarrow> (Value \<times> error option) \<times> StreamDecoder" where
  "StreamDecoder_Decode s = ((Null, None), s)"

definition StreamDecoder_Close :: "StreamDecoder \<Rightarrow> error option \<times> StreamDecoder" where
  "StreamDecoder_Close s = (None, s)"

section \<open>Drivers and predicates used to state the properties\<close>

text \<open>
  The loops of \<^verbatim>\<open>TestStreaming\<close>: \<open>encode_all\<close> calls \<^verbatim>\<open>Encode\<close> on each value in order and
  collects the errors returned; \<open>decode_n\<close> calls \<^verbatim>\<open>Decode\<close> \<open>n\<close> times and collects the
  results.
\<close>

primrec encode_all :: "StreamEncoder \<Rightarrow> Value list \<Rightarrow> error option list \<times> StreamEncoder" where
  "encode_all s [] = ([], s)"
| "encode_all s (v # vs) =
     (case StreamEncoder_Encode s v of
        (e, s') \<Rightarrow> (case encode_all s' vs of (es, s'') \<Rightarrow> (e # es, s'')))"

primrec decode_n :: "nat \<Rightarrow> StreamDecoder \<Rightarrow> (Value \<times> error option) list \<times> StreamDecoder" where
  "decode_n 0 d = ([], d)"
| "decode_n (Suc n) d =
     (case StreamDecoder_Decode d of
        (r, d') \<Rightarrow> (case decode_n n d' of (rs, d'') \<Rightarrow> (r # rs, d'')))"




section \<open>Properties\<close>

subsection \<open>Auxiliary facts about the drivers\<close>

lemma encode_all_eq: "encode_all s vs = (replicate (length vs) None, s)"
  by (induction vs) (simp_all add: StreamEncoder_Encode_def)

lemma decode_n_eq: "decode_n n d = (replicate n (Null, None), d)"
  by (induction n) (simp_all add: StreamDecoder_Decode_def)

subsection \<open>Encode and Decode\<close>

text \<open>
  C1 (round trip). The property asks that \<^verbatim>\<open>Encode\<close> succeeds on every finite value and that
  decoding its output gives the value back. In the code \<open>encodeValue\<close> returns \<^verbatim>\<open>nil\<close>
  for every value, so \<^verbatim>\<open>Encode\<close> returns no bytes and the error
  \<^verbatim>\<open>failed to encode value\<close> on every value and every option list, and frees nothing.
  \<^verbatim>\<open>Decode\<close> of the bytes returned fails with \<^verbatim>\<open>empty data\<close>, and \<^verbatim>\<open>Decode\<close> of any other
  input fails too, \<open>bytesToData\<close> returning \<^verbatim>\<open>nil\<close>.
\<close>

theorem Encode_always_fails:
  "Encode v opts h = (([], Some (errors_New ''failed to encode value'')), h) \<and>
   Decode (fst (fst (Encode v opts h))) dopts h' = ((Null, Some (errors_New ''empty data'')), h') \<and>
   Decode data dopts h' =
     ((Null, Some (errors_New
        (if length data = 0 then ''empty data'' else ''failed to create data structure''))), h')"
proof -
  have enc: "Encode v opts h = (([], Some (errors_New ''failed to encode value'')), h)"
    by (simp add: Encode_def encodeValue_def)
  have dec: "Decode bs dopts h' =
      ((Null, Some (errors_New
         (if length bs = 0 then ''empty data'' else ''failed to create data structure''))), h')"
    for bs
    by (simp add: Decode_def bytesToData_def)
  show ?thesis
    using dec [of data] dec [of "[]"] by (simp add: enc)
qed

text \<open>
  C2 (compression toggle). The property asks that encoding with compression and decoding
  with decompression gives the value back, for every algorithm and level. In the code
  the encoding fails before compression is reached, whatever the algorithm \<open>a\<close> and the
  level \<open>l\<close>, and decoding the bytes it returns fails with \<^verbatim>\<open>empty data\<close>.
\<close>

theorem compressed_round_trip_fails:
  "Encode v [\<lparr>Compress = True, Algorithm = a, Level = l, AutoTabular = t\<rparr>] h
     = (([], Some (errors_New ''failed to encode value'')), h) \<and>
   Decode (fst (fst (Encode v [\<lparr>Compress = True, Algorithm = a, Level = l, AutoTabular = t\<rparr>] h)))
       [\<lparr>Decompress = True\<rparr>] h'
     = ((Null, Some (errors_New ''empty data'')), h')"
  by (simp add: Encode_def encodeValue_def Decode_def)


text \<open>
  C8 (determinism, no hidden state). The package declares no variable, so the C heap is
  the only state outside their arguments that \<^verbatim>\<open>Encode\<close> and \<^verbatim>\<open>Decode\<close> could reach. Their
  results are the same in any two states of it, and both leave it as it was: equal
  inputs and options give equal bytes or value and an equal error.
\<close>

theorem Encode_Decode_pure:
  "fst (Encode v opts h1) = fst (Encode v opts h2) \<and> snd (Encode v opts h1) = h1 \<and>
   fst (Decode data dopts h1) = fst (Decode data dopts h2) \<and> snd (Decode data dopts h1) = h1"
  by (simp add: Encode_def encodeValue_def Decode_def bytesToData_def Let_def)

text \<open>
  C9 (empty input). For every option list, the empty one included, \<^verbatim>\<open>Decode\<close> of an empty
  byte slice returns the nil value and the error \<^verbatim>\<open>empty data\<close>, the error of the first
  check of the function, and frees nothing.
\<close>

theorem Decode_empty:
  "Decode [] opts h = ((Null, Some (errors_New ''empty data'')), h)"
  by (simp add: Decode_def)

text \<open>
  C10 (default options). With no option \<^verbatim>\<open>Encode\<close> uses, and behaves as with,
  \<^verbatim>\<open>EncodeOptions{Compress: false, AutoTabular: true, Level: 6}\<close>, the algorithm being the
  zero value; with one or more options it uses the first alone, in place of every default.
\<close>

theorem Encode_options:
  "Encode_opt [] = \<lparr>Compress = False, Algorithm = CompressionNone, Level = 6, AutoTabular = True\<rparr> \<and>
   Encode v [] h
     = Encode v [\<lparr>Compress = False, Algorithm = CompressionNone, Level = 6, AutoTabular = True\<rparr>] h \<and>
   Encode_opt (opt # rest) = opt \<and>
   Encode v (opt # rest) h = Encode v [opt] h"
  by (simp add: Encode_def Encode_opt_def Encode_default_def CompressionNone_def)

subsection \<open>Streaming\<close>

text \<open>
  C3 (streaming order). The property asks that the values encoded in order come back in
  order from the decoder, which then reports the end of the stream. In the code every
  \<^verbatim>\<open>Encode\<close> returns no error and keeps nothing, \<^verbatim>\<open>Flush\<close> returns no bytes, and every
  call of \<^verbatim>\<open>Decode\<close>, on any input and however often, returns the nil value with a nil
  error: no value comes back and no end of stream is reported.
\<close>

theorem stream_round_trip_empty:
  "encode_all NewStreamEncoder vs = (replicate (length vs) None, NewStreamEncoder) \<and>
   StreamEncoder_Flush (snd (encode_all NewStreamEncoder vs)) = (([], None), NewStreamEncoder) \<and>
   decode_n n (NewStreamDecoder data) = (replicate n (Null, None), NewStreamDecoder data)"
  by (simp add: encode_all_eq decode_n_eq StreamEncoder_Flush_def)

text \<open>
  C4 (Encode after Close). The property asks that \<^verbatim>\<open>Encode\<close> on a closed encoder fails
  with the stream-closed error. In the code \<^verbatim>\<open>Encode\<close> after \<^verbatim>\<open>Close\<close> returns a nil error,
  as if the value had been added, and the value is not added: the \<^verbatim>\<open>Flush\<close> that follows
  returns no bytes.
\<close>

theorem Encode_after_Close_silent:
  "StreamEncoder_Encode (snd (StreamEncoder_Close NewStreamEncoder)) v
     = (None, NewStreamEncoder) \<and>
   StreamEncoder_Flush
       (snd (StreamEncoder_Encode (snd (StreamEncoder_Close NewStreamEncoder)) v))
     = (([], None), NewStreamEncoder)"
proof -
  have closed: "snd (StreamEncoder_Close NewStreamEncoder) = NewStreamEncoder"
    by (simp add: StreamEncoder_Close_def)
  have enc: "StreamEncoder_Encode NewStreamEncoder v = (None, NewStreamEncoder)"
    by (simp add: StreamEncoder_Encode_def)
  have flush: "StreamEncoder_Flush NewStreamEncoder = (([], None), NewStreamEncoder)"
    by (simp add: StreamEncoder_Flush_def)
  show ?thesis
    by (simp only: closed enc flush snd_conv simp_thms)
qed

text \<open>
  C5 (Close). The property asks that \<^verbatim>\<open>Close\<close> succeeds however often it is called and
  that every other operation fails with an error once the object is closed. In the code
  a second \<^verbatim>\<open>Close\<close> returns a nil error, as asked, but the operations that follow do not
  fail: \<^verbatim>\<open>Decode\<close> on the closed decoder returns the nil value with a nil error, and
  \<^verbatim>\<open>Flush\<close> on a closed encoder returns no bytes with a nil error.
\<close>

theorem operations_after_Close_silent:
  "fst (StreamDecoder_Close (snd (StreamDecoder_Close (NewStreamDecoder data)))) = None \<and>
   fst (StreamDecoder_Decode
          (snd (StreamDecoder_Close (snd (StreamDecoder_Close (NewStreamDecoder data))))))
     = (Null, None) \<and>
   fst (StreamEncoder_Close (snd (StreamEncoder_Close NewStreamEncoder))) = None \<and>
   fst (StreamEncoder_Flush (snd (StreamEncoder_Close (snd (StreamEncoder_Close NewStreamEncoder)))))
     = ([], None)"
  by (simp add: StreamDecoder_Close_def StreamDecoder_Decode_def StreamEncoder_Close_def
      StreamEncoder_Flush_def)

text \<open>
  C6 (failures are errors). The property asks that no operation returns a nil or zero
  result together with a nil error where it has failed. In the code \<^verbatim>\<open>Flush\<close> after an
  \<^verbatim>\<open>Encode\<close> returns no bytes and a nil error, \<^verbatim>\<open>Decode\<close> of a decoder over no bytes
  returns the nil value and a nil error, and \<open>decodeData\<close> returns the nil value and a
  nil error for every pointer.
\<close>

theorem nil_result_nil_error:
  "fst (StreamEncoder_Flush (snd (StreamEncoder_Encode NewStreamEncoder (Int64 1)))) = ([], None) \<and>
   fst (StreamDecoder_Decode (NewStreamDecoder [])) = (Null, None) \<and>
   decodeData p = (Null, None)"
  by (simp add: StreamEncoder_Flush_def StreamDecoder_Decode_def decodeData_def)

end
